theory Spec2Isabelle
  imports Complex_Main "HOL-Library.AList"
begin

section \<open>The product manager of slick-review-backend\<close>

text \<open>
  The source is \<^verbatim>\<open>src/product/manager/product.js\<close>: the class \<^verbatim>\<open>ProductManager\<close>
  with the methods \<^verbatim>\<open>validateAddReviewRequest\<close>, \<^verbatim>\<open>getAll\<close>, \<^verbatim>\<open>findById\<close>,
  \<^verbatim>\<open>publishToRealtimeQueue\<close> and \<^verbatim>\<open>addRating\<close>. Every method is a straight line of
  awaited calls on collaborators that live in other modules: the two persistence
  entities, the realtime queue, the Joi validator and the review schema. The
  collaborators are parameters of the model; the methods are translated statement by
  statement.
\<close>

subsection \<open>JavaScript values\<close>

text \<open>
  The values the methods pass around. An object is the list of its own data properties
  in insertion order; an array carries its elements and, like every JavaScript object,
  named properties of its own. Functions, symbols, accessors, frozen objects and
  proxies are not represented, and neither are NaN and the infinities (the module does
  no arithmetic). Objects are values here: the model does not follow aliasing.
\<close>

datatype js_value =
    JUndefined
  | JNull
  | JBool bool
  | JNum real
  | JStr string
  | JArr "js_value list" "(string \<times> js_value) list"
  | JObj "(string \<times> js_value) list"

text \<open>The condition of an \<^verbatim>\<open>if\<close>: ToBoolean.\<close>

fun truthy :: "js_value \<Rightarrow> bool" where
  "truthy JUndefined = False"
| "truthy JNull = False"
| "truthy (JBool b) = b"
| "truthy (JNum x) = (x \<noteq> 0)"
| "truthy (JStr t) = (t \<noteq> [])"
| "truthy (JArr xs ps) = True"
| "truthy (JObj ps) = True"

text \<open>The error object of a failed property assignment.\<close>

definition TypeError :: js_value where
  "TypeError = JObj [(''name'', JStr ''TypeError'')]"

text \<open>
  \<^verbatim>\<open>o.k = v\<close> in strict code (the file starts with \<^verbatim>\<open>'use strict'\<close>): an object gets the
  property, in place when it has one of that name and at the end otherwise;
  \<^verbatim>\<open>null\<close>, \<^verbatim>\<open>undefined\<close> and the primitives throw a TypeError. The only names the
  module assigns are \<^verbatim>\<open>ratings\<close> and \<^verbatim>\<open>badRequest\<close>, neither an array index.
\<close>

fun put_prop :: "string \<Rightarrow> js_value \<Rightarrow> js_value \<Rightarrow> js_value + js_value" where
  "put_prop k v (JObj ps) = Inr (JObj (AList.update k v ps))"
| "put_prop k v (JArr xs ps) = Inr (JArr xs (AList.update k v ps))"
| "put_prop k v JUndefined = Inl TypeError"
| "put_prop k v JNull = Inl TypeError"
| "put_prop k v (JBool b) = Inl TypeError"
| "put_prop k v (JNum x) = Inl TypeError"
| "put_prop k v (JStr t) = Inl TypeError"

text \<open>Reading an own property; \<open>None\<close> when there is none.\<close>

fun own_prop :: "string \<Rightarrow> js_value \<Rightarrow> js_value option" where
  "own_prop k (JObj ps) = map_of ps k"
| "own_prop k (JArr xs ps) = map_of ps k"
| "own_prop k JUndefined = None"
| "own_prop k JNull = None"
| "own_prop k (JBool b) = None"
| "own_prop k (JNum x) = None"
| "own_prop k (JStr t) = None"

subsection \<open>Promises, the world and the log of collaborator calls\<close>

text \<open>
  The world outside the manager: the database behind the entities, the store behind
  the queue, and a log of the collaborator methods invoked so far, in order, with
  their arguments (what a test spy would record). The log is how "invoked exactly
  once" and "never invoked" are stated.
\<close>

datatype call =
    Product_getAll
  | Product_findById js_value
  | Rating_getAllByProductId js_value
  | Rating_create js_value js_value js_value
  | Rating_findById js_value
  | Queue_create js_value js_value
  | Queue_save

fun is_queue_call :: "call \<Rightarrow> bool" where
  "is_queue_call (Queue_create event payload) = True"
| "is_queue_call Queue_save = True"
| "is_queue_call Product_getAll = False"
| "is_queue_call (Product_findById i) = False"
| "is_queue_call (Rating_getAllByProductId i) = False"
| "is_queue_call (Rating_create p r v) = False"
| "is_queue_call (Rating_findById i) = False"

record ('d, 'q) world =
  db :: 'd
  queue :: 'q
  calls :: "call list"

text \<open>The calls a run added to the log: the log after it without the log before it.\<close>

definition invoked :: "('d, 'q) world \<Rightarrow> ('d, 'q) world \<Rightarrow> call list" where
  "invoked s s' = drop (length (calls s)) (calls s')"

text \<open>
  An awaited computation: from a world to a settled promise (\<open>Inl\<close> the rejection or
  the thrown error, \<open>Inr\<close> the value) and the world after it.
\<close>

type_synonym ('s, 'a) async = "'s \<Rightarrow> (js_value + 'a) \<times> 's"

definition resolve :: "'a \<Rightarrow> ('s, 'a) async" where
  "resolve v s = (Inr v, s)"

definition throw :: "js_value \<Rightarrow> ('s, 'a) async" where
  "throw e s = (Inl e, s)"

text \<open>\<^verbatim>\<open>return Promise.reject(error)\<close> in an async function: its promise rejects with \<open>error\<close>.\<close>

definition promise_reject :: "js_value \<Rightarrow> ('s, 'a) async" where
  "promise_reject e s = (Inl e, s)"

text \<open>\<^verbatim>\<open>let x = await m; k\<close>: a rejection of \<open>m\<close> is thrown and skips \<open>k\<close>.\<close>

definition await :: "('s, 'a) async \<Rightarrow> ('a \<Rightarrow> ('s, 'b) async) \<Rightarrow> ('s, 'b) async" where
  "await m k s = (case m s of (Inl e, s') \<Rightarrow> (Inl e, s') | (Inr v, s') \<Rightarrow> k v s')"

text \<open>\<^verbatim>\<open>try { body } catch (error) { handler }\<close>.\<close>

definition try_catch ::
  "('s, 'a) async \<Rightarrow> (js_value \<Rightarrow> ('s, 'a) async) \<Rightarrow> ('s, 'a) async" where
  "try_catch body handler s =
     (case body s of (Inl e, s') \<Rightarrow> handler e s' | (Inr v, s') \<Rightarrow> (Inr v, s'))"

text \<open>
  Invoking a method of an entity or of the queue: the call is logged, the collaborator
  runs on its own part of the world.
\<close>

definition on_db ::
  "call \<Rightarrow> ('d \<Rightarrow> (js_value + 'a) \<times> 'd) \<Rightarrow> (('d, 'q) world, 'a) async" where
  "on_db c f s = (case f (db s) of (r, d') \<Rightarrow> (r, s\<lparr>db := d', calls := calls s @ [c]\<rparr>))"

definition on_queue ::
  "call \<Rightarrow> ('q \<Rightarrow> (js_value + 'a) \<times> 'q) \<Rightarrow> (('d, 'q) world, 'a) async" where
  "on_queue c f s =
     (case f (queue s) of (r, q') \<Rightarrow> (r, s\<lparr>queue := q', calls := calls s @ [c]\<rparr>))"

subsection \<open>The collaborators\<close>

text \<open>
  \<^verbatim>\<open>Joi.validate(data, schema, options)\<close> is called with the options
  \<^verbatim>\<open>{abortEarly: false}\<close> and returns an object with the fields \<^verbatim>\<open>error\<close> and
  \<^verbatim>\<open>value\<close> (here \<open>jerror\<close> and \<open>jvalue\<close>), which the method destructures. Validating
  reads nothing but its arguments and changes nothing.
\<close>

record joi_options =
  abortEarly :: bool

record joi_result =
  jerror :: js_value
  jvalue :: js_value

text \<open>
  The imports of the module. An entity is constructed from the request and then one
  method of it is called: \<open>product_findById C r i\<close> is
  \<^verbatim>\<open>new ProductEntity(r).findById(i)\<close>, a function of the database that settles with a
  value or an error. Constructing an entity only binds the request. The queue's
  \<^verbatim>\<open>create\<close> returns a job (of a type \<open>'j\<close> of the queue's own) or throws; the job's
  \<^verbatim>\<open>save\<close> is called next. The entities work on the database and the queue on its own
  store.
\<close>

record ('r, 'd, 'q, 'j, 'sch) collaborators =
  product_getAll :: "'r \<Rightarrow> 'd \<Rightarrow> (js_value + js_value) \<times> 'd"
  product_findById :: "'r \<Rightarrow> js_value \<Rightarrow> 'd \<Rightarrow> (js_value + js_value) \<times> 'd"
  rating_getAllByProductId :: "'r \<Rightarrow> js_value \<Rightarrow> 'd \<Rightarrow> (js_value + js_value) \<times> 'd"
  rating_create ::
    "'r \<Rightarrow> js_value \<Rightarrow> js_value \<Rightarrow> js_value \<Rightarrow> 'd \<Rightarrow> (js_value + js_value) \<times> 'd"
  rating_findById :: "'r \<Rightarrow> js_value \<Rightarrow> 'd \<Rightarrow> (js_value + js_value) \<times> 'd"
  queue_create :: "js_value \<Rightarrow> js_value \<Rightarrow> 'q \<Rightarrow> (js_value + 'j) \<times> 'q"
  queue_save :: "'j \<Rightarrow> 'q \<Rightarrow> (js_value + js_value) \<times> 'q"
  Joi_validate :: "js_value \<Rightarrow> 'sch \<Rightarrow> joi_options \<Rightarrow> joi_result"
  addReviewRequestSchema :: 'sch

subsection \<open>The class ProductManager\<close>

record 'r ProductManager =
  request :: 'r

text \<open>
  \<^verbatim>\<open>validateAddReviewRequest(data)\<close>: the executor of the promise runs Joi with
  \<^verbatim>\<open>{abortEarly: false}\<close>; on an error it sets \<^verbatim>\<open>error.badRequest = true\<close> and rejects
  with the error, otherwise it resolves with Joi's value. A throw inside an executor
  rejects the promise.
\<close>

definition validateAddReviewRequest ::
  "('r, 'd, 'q, 'j, 'sch) collaborators \<Rightarrow> js_value \<Rightarrow> ('s, js_value) async" where
  "validateAddReviewRequest C data =
     (let res = Joi_validate C data (addReviewRequestSchema C) \<lparr>abortEarly = False\<rparr> in
      if truthy (jerror res) then
        (case put_prop ''badRequest'' (JBool True) (jerror res) of
           Inl thrown \<Rightarrow> promise_reject thrown
         | Inr error \<Rightarrow> promise_reject error)
      else resolve (jvalue res))"

text \<open>\<^verbatim>\<open>getAll()\<close>.\<close>

definition getAll ::
  "('r, 'd, 'q, 'j, 'sch) collaborators \<Rightarrow> 'r ProductManager \<Rightarrow>
     (('d, 'q) world, js_value) async" where
  "getAll C this =
     try_catch
       (await (on_db Product_getAll (product_getAll C (request this))) (\<lambda>products.
        resolve products))
       (\<lambda>error. promise_reject error)"

text \<open>
  \<^verbatim>\<open>findById(id)\<close>; the parameter is \<open>ident\<close> here, \<open>id\<close> being HOL's identity. Both
  entities are constructed before the first lookup. In
  \<^verbatim>\<open>product.ratings = await ...\<close> the ratings are fetched first and the assignment
  happens when the promise has settled.
\<close>

definition findById ::
  "('r, 'd, 'q, 'j, 'sch) collaborators \<Rightarrow> 'r ProductManager \<Rightarrow> js_value \<Rightarrow>
     (('d, 'q) world, js_value) async" where
  "findById C this ident =
     try_catch
       (await (on_db (Product_findById ident)
                 (product_findById C (request this) ident)) (\<lambda>product.
        await (on_db (Rating_getAllByProductId ident)
                 (rating_getAllByProductId C (request this) ident)) (\<lambda>fetched.
        case put_prop ''ratings'' fetched product of
          Inl thrown \<Rightarrow> throw thrown
        | Inr product' \<Rightarrow> resolve product')))
       (\<lambda>error. promise_reject error)"

text \<open>\<^verbatim>\<open>publishToRealtimeQueue(event, payload)\<close>: \<^verbatim>\<open>await realtimeQueue.create(event, payload).save()\<close>.\<close>

definition publishToRealtimeQueue ::
  "('r, 'd, 'q, 'j, 'sch) collaborators \<Rightarrow> js_value \<Rightarrow> js_value \<Rightarrow>
     (('d, 'q) world, js_value) async" where
  "publishToRealtimeQueue C event payload =
     await (on_queue (Queue_create event payload) (queue_create C event payload)) (\<lambda>job.
     await (on_queue Queue_save (queue_save C job)) (\<lambda>saved.
     resolve JUndefined))"

text \<open>\<^verbatim>\<open>addRating(productId, rating, review)\<close>.\<close>

definition addRating ::
  "('r, 'd, 'q, 'j, 'sch) collaborators \<Rightarrow> 'r ProductManager \<Rightarrow>
     js_value \<Rightarrow> js_value \<Rightarrow> js_value \<Rightarrow> (('d, 'q) world, js_value) async" where
  "addRating C this productId rating review =
     try_catch
       (await (validateAddReviewRequest C
                 (JObj [(''product_id'', productId), (''rating'', rating),
                        (''review'', review)])) (\<lambda>validated.
        await (on_db (Rating_create productId rating review)
                 (rating_create C (request this) productId rating review))
          (\<lambda>createdRatingId.
        await (on_db (Rating_findById createdRatingId)
                 (rating_findById C (request this) createdRatingId)) (\<lambda>createdRating.
        await (publishToRealtimeQueue C (JStr ''product-rating:added'')
                 (JObj [(''rating'', createdRating), (''product_id'', productId)]))
          (\<lambda>published.
        resolve createdRating)))))
       (\<lambda>error. promise_reject error)"

subsection \<open>The review schema and the validator, from the spec\<close>

text \<open>
  Modelled from the spec: the rules of the review schema. The schema module
  (\<^verbatim>\<open>src/product/schema/review\<close>) is not among the sources. The spec gives the shape
  \<^verbatim>\<open>{product_id: number, rating: number, review: string}\<close> with all three fields
  required, the rating within a range the schema fixes and the review a non-empty
  text. The bounds of the range are not in the spec: they are parameters.
\<close>

datatype joi_rule =
    Number_required
  | Number_in_range_required real real
  | String_required

text \<open>
  Modelled from the spec: the violations of one field under its rule, \<open>None\<close> being a
  missing field. The messages are placeholders; which constraints are violated is what
  matters.
\<close>

fun rule_errors :: "joi_rule \<Rightarrow> js_value option \<Rightarrow> string list" where
  "rule_errors r None = [''is required'']"
| "rule_errors Number_required (Some v) =
     (case v of JNum x \<Rightarrow> [] | _ \<Rightarrow> [''must be a number''])"
| "rule_errors (Number_in_range_required lo hi) (Some v) =
     (case v of
        JNum x \<Rightarrow>
          (if x < lo then [''must be larger than or equal to the minimum''] else []) @
          (if hi < x then [''must be less than or equal to the maximum''] else [])
      | _ \<Rightarrow> [''must be a number''])"
| "rule_errors String_required (Some v) =
     (case v of
        JStr t \<Rightarrow> (if t = [] then [''is not allowed to be empty''] else [])
      | _ \<Rightarrow> [''must be a string''])"

text \<open>
  Modelled from the spec: the review schema, "a declarative validator for the shape
  \<^verbatim>\<open>{product_id, rating, review}\<close>", with the allowed range of the rating as parameters.
\<close>

definition review_schema :: "real \<Rightarrow> real \<Rightarrow> (string \<times> joi_rule) list" where
  "review_schema lo hi =
     [(''product_id'', Number_required),
      (''rating'', Number_in_range_required lo hi),
      (''review'', String_required)]"

text \<open>Modelled from the spec: one entry of the error's list of field violations.\<close>

definition detail :: "string \<Rightarrow> string \<Rightarrow> js_value" where
  "detail k message = JObj [(''path'', JStr k), (''message'', JStr message)]"

text \<open>
  Modelled from the spec: the field violations of an input under a schema, field by
  field in the schema's order.
\<close>

definition schema_errors :: "(string \<times> joi_rule) list \<Rightarrow> js_value \<Rightarrow> js_value list" where
  "schema_errors sch data =
     concat (map (\<lambda>(k, r). map (detail k) (rule_errors r (own_prop k data))) sch)"

text \<open>Modelled from the spec: the ValidationError, "carrying the full set of field violations".\<close>

definition ValidationError :: "js_value list \<Rightarrow> js_value" where
  "ValidationError ds = JObj [(''name'', JStr ''ValidationError''), (''details'', JArr ds [])]"

text \<open>
  Modelled from the spec: the validator (Joi is a library, not among the sources). With
  \<open>abortEarly\<close> off the validation is exhaustive: "all field errors are collected
  rather than stopping at the first failure"; with it on, the validation stops at the
  first. "On success: produces the validated/normalized value"; the rules above
  convert nothing, so the value of a valid input is the input.
\<close>

definition Joi_validate_model ::
  "js_value \<Rightarrow> (string \<times> joi_rule) list \<Rightarrow> joi_options \<Rightarrow> joi_result" where
  "Joi_validate_model data sch options =
     (case data of
        JObj ps \<Rightarrow>
          (let errors = schema_errors sch data;
               reported = (if abortEarly options then take 1 errors else errors)
           in if reported = [] then \<lparr>jerror = JNull, jvalue = data\<rparr>
              else \<lparr>jerror = ValidationError reported, jvalue = data\<rparr>)
      | _ \<Rightarrow> \<lparr>jerror = ValidationError [detail [] ''must be an object''], jvalue = data\<rparr>)"

text \<open>
  Modelled from the spec: the manager's collaborators with the validator and the
  schema above in place of the absent ones.
\<close>

definition with_review_schema ::
  "real \<Rightarrow> real \<Rightarrow> ('r, 'd, 'q, 'j, (string \<times> joi_rule) list) collaborators \<Rightarrow>
     ('r, 'd, 'q, 'j, (string \<times> joi_rule) list) collaborators" where
  "with_review_schema lo hi C =
     C\<lparr>Joi_validate := Joi_validate_model, addReviewRequestSchema := review_schema lo hi\<rparr>"

subsection \<open>An in-memory double of the collaborators\<close>

text \<open>
  Test doubles on which the methods are run at concrete inputs: two tables of rows, a
  queue that appends the saved jobs, and a validator that accepts everything (the
  schema is whatever the double is given). Ids are generated from the number of rows.
\<close>

record store =
  products :: "js_value list"
  ratings :: "js_value list"

definition NotFoundError :: js_value where
  "NotFoundError = JObj [(''name'', JStr ''NotFoundError'')]"

definition find_row :: "js_value \<Rightarrow> js_value list \<Rightarrow> js_value + js_value" where
  "find_row i rows =
     (case find (\<lambda>row. own_prop ''id'' row = Some i) rows of
        None \<Rightarrow> Inl NotFoundError
      | Some row \<Rightarrow> Inr row)"

definition new_row :: "js_value \<Rightarrow> js_value \<Rightarrow> js_value \<Rightarrow> js_value \<Rightarrow> js_value" where
  "new_row i p x v = JObj [(''id'', i), (''product_id'', p), (''rating'', x), (''review'', v)]"

definition memory ::
  "'sch \<Rightarrow>
     (unit, store, (js_value \<times> js_value) list, js_value \<times> js_value, 'sch) collaborators" where
  "memory sch =
     \<lparr>product_getAll = (\<lambda>r d. (Inr (JArr (products d) []), d)),
      product_findById = (\<lambda>r i d. (find_row i (products d), d)),
      rating_getAllByProductId = (\<lambda>r i d.
        (Inr (JArr (filter (\<lambda>row. own_prop ''product_id'' row = Some i) (ratings d)) []), d)),
      rating_create = (\<lambda>r p x v d.
        (Inr (JNum (real (length (ratings d)) + 1)),
         d\<lparr>ratings := ratings d @ [new_row (JNum (real (length (ratings d)) + 1)) p x v]\<rparr>)),
      rating_findById = (\<lambda>r i d. (find_row i (ratings d), d)),
      queue_create = (\<lambda>event payload q. (Inr (event, payload), q)),
      queue_save = (\<lambda>job q. (Inr JUndefined, q @ [job])),
      Joi_validate = (\<lambda>data sch options. \<lparr>jerror = JNull, jvalue = data\<rparr>),
      addReviewRequestSchema = sch\<rparr>"

definition manager :: "unit ProductManager" where
  "manager = \<lparr>request = ()\<rparr>"

definition camera :: js_value where
  "camera = JObj [(''id'', JNum 7), (''name'', JStr ''Camera''), (''price'', JNum 250)]"

definition world0 :: "(store, (js_value \<times> js_value) list) world" where
  "world0 =
     \<lparr>db = \<lparr>products = [camera],
             ratings = [new_row (JNum 1) (JNum 7) (JNum 4) (JStr ''Good'')]\<rparr>,
      queue = [], calls = []\<rparr>"

text \<open>The rating that \<open>addRating\<close> creates in \<open>world0\<close>, and the event published for it.\<close>

definition great :: js_value where
  "great = new_row (JNum 2) (JNum 7) (JNum 5) (JStr ''Great product'')"

definition added :: "js_value \<Rightarrow> js_value \<Rightarrow> js_value" where
  "added createdRating productId = JObj [(''rating'', createdRating), (''product_id'', productId)]"

text \<open>Doubles that fail at one step, and one whose validator normalises the input.\<close>

definition PersistenceError :: js_value where
  "PersistenceError = JObj [(''name'', JStr ''PersistenceError'')]"

definition PublicationError :: js_value where
  "PublicationError = JObj [(''name'', JStr ''PublicationError'')]"

definition rejecting ::
  "(unit, store, (js_value \<times> js_value) list, js_value \<times> js_value, unit) collaborators" where
  "rejecting =
     (memory ())\<lparr>Joi_validate := \<lambda>data sch options.
       \<lparr>jerror = JObj [(''name'', JStr ''ValidationError'')], jvalue = data\<rparr>\<rparr>"

definition failing_create ::
  "(unit, store, (js_value \<times> js_value) list, js_value \<times> js_value, unit) collaborators" where
  "failing_create = (memory ())\<lparr>rating_create := \<lambda>r p x v d. (Inl PersistenceError, d)\<rparr>"

definition failing_save ::
  "(unit, store, (js_value \<times> js_value) list, js_value \<times> js_value, unit) collaborators" where
  "failing_save = (memory ())\<lparr>queue_save := \<lambda>job q. (Inl PublicationError, q)\<rparr>"

definition normalizing ::
  "(unit, store, (js_value \<times> js_value) list, js_value \<times> js_value, unit) collaborators" where
  "normalizing =
     (memory ())\<lparr>Joi_validate := \<lambda>data sch options.
       \<lparr>jerror = JNull,
        jvalue = JObj [(''product_id'', JNum 7), (''rating'', JNum 5),
                       (''review'', JStr ''Great product'')]\<rparr>\<rparr>"

section \<open>Properties\<close>

subsection \<open>Validation\<close>

lemma validate_rejects_object:
  "jerror (Joi_validate C data (addReviewRequestSchema C) \<lparr>abortEarly = False\<rparr>) = JObj ps \<Longrightarrow>
   validateAddReviewRequest C data s = (Inl (JObj (AList.update ''badRequest'' (JBool True) ps)), s)"
  by (simp add: validateAddReviewRequest_def Let_def promise_reject_def)

lemma validate_rejects_truthy:
  "truthy (jerror (Joi_validate C data (addReviewRequestSchema C) \<lparr>abortEarly = False\<rparr>)) \<Longrightarrow>
   \<exists>e. validateAddReviewRequest C data s = (Inl e, s)"
  by (simp add: validateAddReviewRequest_def Let_def promise_reject_def split: sum.splits)

lemma validate_resolves:
  "\<not> truthy (jerror (Joi_validate C data (addReviewRequestSchema C) \<lparr>abortEarly = False\<rparr>)) \<Longrightarrow>
   validateAddReviewRequest C data s =
     (Inr (jvalue (Joi_validate C data (addReviewRequestSchema C) \<lparr>abortEarly = False\<rparr>)), s)"
  by (simp add: validateAddReviewRequest_def Let_def resolve_def)

subsection \<open>What addRating does, outcome by outcome\<close>

lemma publish_eq:
  "publishToRealtimeQueue C event payload s =
     (case queue_create C event payload (queue s) of
        (Inl e, q1) \<Rightarrow> (Inl e, s\<lparr>queue := q1, calls := calls s @ [Queue_create event payload]\<rparr>)
      | (Inr job, q1) \<Rightarrow>
          (case queue_save C job q1 of
             (Inl e, q2) \<Rightarrow>
               (Inl e, s\<lparr>queue := q2, calls := calls s @ [Queue_create event payload, Queue_save]\<rparr>)
           | (Inr saved, q2) \<Rightarrow>
               (Inr JUndefined,
                s\<lparr>queue := q2, calls := calls s @ [Queue_create event payload, Queue_save]\<rparr>)))"
  by (simp add: publishToRealtimeQueue_def await_def on_queue_def resolve_def
      split: prod.splits sum.splits)

lemma addRating_invalid:
  "validateAddReviewRequest C
     (JObj [(''product_id'', productId), (''rating'', rating), (''review'', review)]) s = (Inl e, s) \<Longrightarrow>
   addRating C this productId rating review s = (Inl e, s)"
  by (simp add: addRating_def try_catch_def await_def promise_reject_def)

lemma addRating_valid:
  "validateAddReviewRequest C
     (JObj [(''product_id'', productId), (''rating'', rating), (''review'', review)]) s = (Inr v, s) \<Longrightarrow>
   addRating C this productId rating review s =
     (case rating_create C (request this) productId rating review (db s) of
        (Inl e, d1) \<Rightarrow>
          (Inl e, s\<lparr>db := d1, calls := calls s @ [Rating_create productId rating review]\<rparr>)
      | (Inr createdRatingId, d1) \<Rightarrow>
          (case rating_findById C (request this) createdRatingId d1 of
             (Inl e, d2) \<Rightarrow>
               (Inl e, s\<lparr>db := d2, calls := calls s @
                  [Rating_create productId rating review, Rating_findById createdRatingId]\<rparr>)
           | (Inr createdRating, d2) \<Rightarrow>
               (case publishToRealtimeQueue C (JStr ''product-rating:added'')
                       (JObj [(''rating'', createdRating), (''product_id'', productId)])
                       (s\<lparr>db := d2, calls := calls s @
                          [Rating_create productId rating review,
                           Rating_findById createdRatingId]\<rparr>) of
                  (Inl e, s3) \<Rightarrow> (Inl e, s3)
                | (Inr published, s3) \<Rightarrow> (Inr createdRating, s3))))"
  by (simp add: addRating_def try_catch_def await_def on_db_def resolve_def promise_reject_def
      split: prod.splits sum.splits)


lemma addRating_published:
  assumes "\<not> truthy (jerror (Joi_validate C
             (JObj [(''product_id'', productId), (''rating'', rating), (''review'', review)])
             (addReviewRequestSchema C) \<lparr>abortEarly = False\<rparr>))"
  shows "addRating C this productId rating review s =
     (case rating_create C (request this) productId rating review (db s) of
        (Inl e, d1) \<Rightarrow>
          (Inl e, s\<lparr>db := d1, calls := calls s @ [Rating_create productId rating review]\<rparr>)
      | (Inr createdRatingId, d1) \<Rightarrow>
          (case rating_findById C (request this) createdRatingId d1 of
             (Inl e, d2) \<Rightarrow>
               (Inl e, s\<lparr>db := d2, calls := calls s @
                  [Rating_create productId rating review, Rating_findById createdRatingId]\<rparr>)
           | (Inr createdRating, d2) \<Rightarrow>
               (case queue_create C (JStr ''product-rating:added'')
                       (JObj [(''rating'', createdRating), (''product_id'', productId)])
                       (queue s) of
                  (Inl e, q1) \<Rightarrow>
                    (Inl e, s\<lparr>db := d2, queue := q1, calls := calls s @
                       [Rating_create productId rating review,
                        Rating_findById createdRatingId,
                        Queue_create (JStr ''product-rating:added'')
                          (JObj [(''rating'', createdRating), (''product_id'', productId)])]\<rparr>)
                | (Inr job, q1) \<Rightarrow>
                    (case queue_save C job q1 of
                       (Inl e, q2) \<Rightarrow>
                         (Inl e, s\<lparr>db := d2, queue := q2, calls := calls s @
                            [Rating_create productId rating review,
                             Rating_findById createdRatingId,
                             Queue_create (JStr ''product-rating:added'')
                               (JObj [(''rating'', createdRating), (''product_id'', productId)]),
                             Queue_save]\<rparr>)
                     | (Inr saved, q2) \<Rightarrow>
                         (Inr createdRating, s\<lparr>db := d2, queue := q2, calls := calls s @
                            [Rating_create productId rating review,
                             Rating_findById createdRatingId,
                             Queue_create (JStr ''product-rating:added'')
                               (JObj [(''rating'', createdRating), (''product_id'', productId)]),
                             Queue_save]\<rparr>)))))"
  using addRating_valid [OF validate_resolves [OF assms], of this s]
  by (simp add: publish_eq split: prod.splits sum.splits)

text \<open>
  Claim C1. When validation succeeds and every collaborator succeeds, \<open>addRating\<close>
  resolves with the rating that \<open>findById\<close> returned, and the calls it made are, in
  this order and nothing else: the persistence \<open>create\<close> with the caller's three
  arguments, \<open>findById\<close> with the id that \<open>create\<close> returned, the queue's \<open>create\<close> with
  the event name \<^verbatim>\<open>product-rating:added\<close> and the payload
  \<^verbatim>\<open>{rating: <the fetched rating>, product_id: productId}\<close>, and the job's \<open>save\<close>.
\<close>

theorem addRating_success:
  assumes "\<not> truthy (jerror (Joi_validate C
             (JObj [(''product_id'', productId), (''rating'', rating), (''review'', review)])
             (addReviewRequestSchema C) \<lparr>abortEarly = False\<rparr>))"
    and "rating_create C (request this) productId rating review (db s) = (Inr createdRatingId, d1)"
    and "rating_findById C (request this) createdRatingId d1 = (Inr hydrated, d2)"
    and "queue_create C (JStr ''product-rating:added'')
           (JObj [(''rating'', hydrated), (''product_id'', productId)]) (queue s) = (Inr job, q1)"
    and "queue_save C job q1 = (Inr saved, q2)"
  shows "addRating C this productId rating review s =
     (Inr hydrated,
      s\<lparr>db := d2, queue := q2,
        calls := calls s @
          [Rating_create productId rating review,
           Rating_findById createdRatingId,
           Queue_create (JStr ''product-rating:added'')
             (JObj [(''rating'', hydrated), (''product_id'', productId)]),
           Queue_save]\<rparr>)"
  using assms(2-) by (simp add: addRating_published [OF assms(1)])


lemma addRating_log:
  "\<exists>new. calls (snd (addRating C this productId rating review s)) = calls s @ new \<and>
     ((\<exists>c \<in> set new. is_queue_call c) \<longrightarrow>
        (\<exists>createdRatingId d1 createdRating d2 rest.
           rating_create C (request this) productId rating review (db s) =
             (Inr createdRatingId, d1) \<and>
           rating_findById C (request this) createdRatingId d1 = (Inr createdRating, d2) \<and>
           new = Rating_create productId rating review # Rating_findById createdRatingId # rest))"
proof (cases "truthy (jerror (Joi_validate C
             (JObj [(''product_id'', productId), (''rating'', rating), (''review'', review)])
             (addReviewRequestSchema C) \<lparr>abortEarly = False\<rparr>))")
  case True
  from validate_rejects_truthy [OF True, where s = s] obtain e where
    "validateAddReviewRequest C
       (JObj [(''product_id'', productId), (''rating'', rating), (''review'', review)]) s = (Inl e, s)"
    by (elim exE)
  then have "addRating C this productId rating review s = (Inl e, s)"
    by (rule addRating_invalid)
  then have "calls (snd (addRating C this productId rating review s)) = calls s @ []"
    by simp
  then show ?thesis
    by (intro exI [of _ "[]"]) simp
next
  case False
  note unfold = addRating_published [OF False, of this s]
  obtain r1 d1 where create: "rating_create C (request this) productId rating review (db s) = (r1, d1)"
    by (cases "rating_create C (request this) productId rating review (db s)")
  show ?thesis
  proof (cases r1)
    case (Inl e)
    have "calls (snd (addRating C this productId rating review s)) =
            calls s @ [Rating_create productId rating review]"
      by (simp add: unfold create Inl)
    then show ?thesis
      by (intro exI [of _ "[Rating_create productId rating review]"]) simp
  next
    case (Inr createdRatingId)
    note create' = create [unfolded Inr]
    obtain r2 d2 where find: "rating_findById C (request this) createdRatingId d1 = (r2, d2)"
      by (cases "rating_findById C (request this) createdRatingId d1")
    show ?thesis
    proof (cases r2)
      case (Inl e)
      have "calls (snd (addRating C this productId rating review s)) =
              calls s @ [Rating_create productId rating review, Rating_findById createdRatingId]"
        by (simp add: unfold create' find Inl)
      then show ?thesis
        by (intro exI [of _ "[Rating_create productId rating review,
                              Rating_findById createdRatingId]"]) simp
    next
      case (Inr createdRating)
      note find' = find [unfolded Inr]
      have "\<exists>rest. calls (snd (addRating C this productId rating review s)) =
              calls s @ Rating_create productId rating review #
                Rating_findById createdRatingId # rest"
        by (simp add: unfold create' find' split: prod.splits sum.splits)
      then obtain rest where
        "calls (snd (addRating C this productId rating review s)) =
           calls s @ Rating_create productId rating review #
             Rating_findById createdRatingId # rest"
        by (elim exE)
      with create' find' show ?thesis
        by (intro exI [of _ "Rating_create productId rating review #
                               Rating_findById createdRatingId # rest"]) simp
    qed
  qed
qed

text \<open>
  Claim C2. In every run of \<open>addRating\<close> the log only grows, and if the run invoked
  the queue at all then the persistence \<open>create\<close> and the re-fetch of the created id
  both succeeded and are the first two calls of the run, before any call on the queue.
  In particular, when the persistence \<open>create\<close> fails the run makes no call on the queue.
\<close>

theorem addRating_queue_after_create_and_refetch:
  assumes run: "addRating C this productId rating review s = (outcome, s')"
  shows "calls s' = calls s @ invoked s s' \<and>
    ((\<exists>c \<in> set (invoked s s'). is_queue_call c) \<longrightarrow>
       (\<exists>createdRatingId d1 createdRating d2 rest.
          rating_create C (request this) productId rating review (db s) =
            (Inr createdRatingId, d1) \<and>
          rating_findById C (request this) createdRatingId d1 = (Inr createdRating, d2) \<and>
          invoked s s' =
            Rating_create productId rating review # Rating_findById createdRatingId # rest)) \<and>
    (\<forall>e d1. rating_create C (request this) productId rating review (db s) = (Inl e, d1) \<longrightarrow>
       (\<forall>c \<in> set (invoked s s'). \<not> is_queue_call c))"
proof -
  from run have snd: "snd (addRating C this productId rating review s) = s'"
    by simp
  from addRating_log [of C this productId rating review s, unfolded snd]
  obtain new where new: "calls s' = calls s @ new"
    and after: "(\<exists>c \<in> set new. is_queue_call c) \<longrightarrow>
        (\<exists>createdRatingId d1 createdRating d2 rest.
           rating_create C (request this) productId rating review (db s) =
             (Inr createdRatingId, d1) \<and>
           rating_findById C (request this) createdRatingId d1 = (Inr createdRating, d2) \<and>
           new = Rating_create productId rating review # Rating_findById createdRatingId # rest)"
    by (elim exE conjE)
  from new have inv: "invoked s s' = new"
    by (simp add: invoked_def)
  have part: "\<forall>e d1. rating_create C (request this) productId rating review (db s) = (Inl e, d1) \<longrightarrow>
       (\<forall>c \<in> set new. \<not> is_queue_call c)"
  proof (intro allI impI ballI notI)
    fix e d1 c
    assume fails: "rating_create C (request this) productId rating review (db s) = (Inl e, d1)"
      and "c \<in> set new" and "is_queue_call c"
    then have "\<exists>c \<in> set new. is_queue_call c"
      by (intro bexI)
    with after obtain createdRatingId d1' where
      "rating_create C (request this) productId rating review (db s) = (Inr createdRatingId, d1')"
      by (elim impE exE conjE)
    with fails show False
      by simp
  qed
  show ?thesis
    unfolding inv
  proof (intro conjI)
    show "calls s' = calls s @ new"
      by (fact new)
    show "(\<exists>c \<in> set new. is_queue_call c) \<longrightarrow>
        (\<exists>createdRatingId d1 createdRating d2 rest.
           rating_create C (request this) productId rating review (db s) =
             (Inr createdRatingId, d1) \<and>
           rating_findById C (request this) createdRatingId d1 = (Inr createdRating, d2) \<and>
           new = Rating_create productId rating review # Rating_findById createdRatingId # rest)"
      by (fact after)
    show "\<forall>e d1. rating_create C (request this) productId rating review (db s) = (Inl e, d1) \<longrightarrow>
       (\<forall>c \<in> set new. \<not> is_queue_call c)"
      by (fact part)
  qed
qed


text \<open>
  Claim C3. When validation fails (Joi returns a truthy error), \<open>addRating\<close> rejects and
  leaves the world as it was: it invokes no collaborator, neither the persistence
  \<open>create\<close> nor the queue. When the error is an object, as Joi's errors are, the
  rejection is that error with \<^verbatim>\<open>badRequest\<close> set to \<^verbatim>\<open>true\<close>.
\<close>

theorem addRating_validation_fails:
  assumes fails: "truthy (jerror (Joi_validate C
             (JObj [(''product_id'', productId), (''rating'', rating), (''review'', review)])
             (addReviewRequestSchema C) \<lparr>abortEarly = False\<rparr>))"
  shows "(\<exists>e. addRating C this productId rating review s = (Inl e, s)) \<and>
    invoked s (snd (addRating C this productId rating review s)) = [] \<and>
    (\<forall>ps. jerror (Joi_validate C
             (JObj [(''product_id'', productId), (''rating'', rating), (''review'', review)])
             (addReviewRequestSchema C) \<lparr>abortEarly = False\<rparr>) = JObj ps \<longrightarrow>
       addRating C this productId rating review s =
         (Inl (JObj (AList.update ''badRequest'' (JBool True) ps)), s))"
proof -
  from validate_rejects_truthy [OF fails, where s = s] obtain e where
    "validateAddReviewRequest C
       (JObj [(''product_id'', productId), (''rating'', rating), (''review'', review)]) s = (Inl e, s)"
    by (elim exE)
  then have rejected: "addRating C this productId rating review s = (Inl e, s)"
    by (rule addRating_invalid)
  have tagged: "addRating C this productId rating review s =
         (Inl (JObj (AList.update ''badRequest'' (JBool True) ps)), s)"
    if "jerror (Joi_validate C
             (JObj [(''product_id'', productId), (''rating'', rating), (''review'', review)])
             (addReviewRequestSchema C) \<lparr>abortEarly = False\<rparr>) = JObj ps" for ps
    by (rule addRating_invalid [OF validate_rejects_object [OF that]])
  from rejected have "\<exists>e. addRating C this productId rating review s = (Inl e, s)"
    by (rule exI)
  moreover from rejected have "invoked s (snd (addRating C this productId rating review s)) = []"
    by (simp add: invoked_def)
  ultimately show ?thesis
    using tagged by (intro conjI allI impI)
qed

text \<open>
  Claim C5. When validation, the persistence \<open>create\<close> and the re-fetch succeed and the
  publication fails (the queue's \<open>create\<close> throws, or the job's \<open>save\<close> fails) with an
  error, \<open>addRating\<close> rejects with that error; the database is the one the successful
  \<open>create\<close> and re-fetch left, and the run made no call on the entities after the
  re-fetch: no delete, no rollback.
\<close>

theorem addRating_publication_fails:
  assumes valid: "\<not> truthy (jerror (Joi_validate C
             (JObj [(''product_id'', productId), (''rating'', rating), (''review'', review)])
             (addReviewRequestSchema C) \<lparr>abortEarly = False\<rparr>))"
    and create: "rating_create C (request this) productId rating review (db s) =
                   (Inr createdRatingId, d1)"
    and refetch: "rating_findById C (request this) createdRatingId d1 = (Inr hydrated, d2)"
    and publish: "queue_create C (JStr ''product-rating:added'')
             (JObj [(''rating'', hydrated), (''product_id'', productId)]) (queue s) = (Inl e, q1) \<or>
           (\<exists>job q0. queue_create C (JStr ''product-rating:added'')
             (JObj [(''rating'', hydrated), (''product_id'', productId)]) (queue s) = (Inr job, q0) \<and>
              queue_save C job q0 = (Inl e, q1))"
  shows "fst (addRating C this productId rating review s) = Inl e \<and>
    db (snd (addRating C this productId rating review s)) = d2 \<and>
    queue (snd (addRating C this productId rating review s)) = q1 \<and>
    (invoked s (snd (addRating C this productId rating review s)) =
       [Rating_create productId rating review, Rating_findById createdRatingId,
        Queue_create (JStr ''product-rating:added'')
          (JObj [(''rating'', hydrated), (''product_id'', productId)])] \<or>
     invoked s (snd (addRating C this productId rating review s)) =
       [Rating_create productId rating review, Rating_findById createdRatingId,
        Queue_create (JStr ''product-rating:added'')
          (JObj [(''rating'', hydrated), (''product_id'', productId)]),
        Queue_save])"
  using publish
proof (elim disjE exE conjE)
  assume "queue_create C (JStr ''product-rating:added'')
             (JObj [(''rating'', hydrated), (''product_id'', productId)]) (queue s) = (Inl e, q1)"
  with create refetch show ?thesis
    by (simp add: addRating_published [OF valid] invoked_def)
next
  fix job q0
  assume "queue_create C (JStr ''product-rating:added'')
             (JObj [(''rating'', hydrated), (''product_id'', productId)]) (queue s) = (Inr job, q0)"
    and "queue_save C job q0 = (Inl e, q1)"
  with create refetch show ?thesis
    by (simp add: addRating_published [OF valid] invoked_def)
qed


subsection \<open>Reading products\<close>

lemma getAll_eq:
  "getAll C this s =
     (case product_getAll C (request this) (db s) of
        (r, d') \<Rightarrow> (r, s\<lparr>db := d', calls := calls s @ [Product_getAll]\<rparr>))"
  by (simp add: getAll_def try_catch_def await_def on_db_def resolve_def promise_reject_def
      split: prod.splits sum.splits)

lemma findById_eq:
  "findById C this ident s =
     (case product_findById C (request this) ident (db s) of
        (Inl e, d1) \<Rightarrow> (Inl e, s\<lparr>db := d1, calls := calls s @ [Product_findById ident]\<rparr>)
      | (Inr product, d1) \<Rightarrow>
          (case rating_getAllByProductId C (request this) ident d1 of
             (Inl e, d2) \<Rightarrow>
               (Inl e, s\<lparr>db := d2, calls := calls s @
                  [Product_findById ident, Rating_getAllByProductId ident]\<rparr>)
           | (Inr fetched, d2) \<Rightarrow>
               (put_prop ''ratings'' fetched product,
                s\<lparr>db := d2, calls := calls s @
                  [Product_findById ident, Rating_getAllByProductId ident]\<rparr>)))"
  by (simp add: findById_def try_catch_def await_def on_db_def resolve_def throw_def
      promise_reject_def split: prod.splits sum.splits)

text \<open>
  Claim C6. When the product lookup fails, with NotFoundError or any other error,
  \<open>findById\<close> rejects with that same error and the only call of the run is the product
  lookup: the ratings lookup is never invoked.
\<close>

theorem findById_product_lookup_fails:
  assumes "product_findById C (request this) ident (db s) = (Inl e, d1)"
  shows "findById C this ident s =
           (Inl e, s\<lparr>db := d1, calls := calls s @ [Product_findById ident]\<rparr>) \<and>
         invoked s (snd (findById C this ident s)) = [Product_findById ident] \<and>
         (\<forall>i. Rating_getAllByProductId i \<notin> set (invoked s (snd (findById C this ident s))))"
  using assms by (simp add: findById_eq invoked_def)

text \<open>
  Claim C7. When the product lookup yields a product object and the ratings lookup
  succeeds, \<open>findById\<close> resolves with that object with its \<^verbatim>\<open>ratings\<close> property set
  to exactly what the ratings lookup returned (the same sequence, in the same order),
  every other property of the product as the lookup gave it.
\<close>

theorem findById_attaches_ratings:
  assumes "product_findById C (request this) ident (db s) = (Inr (JObj ps), d1)"
    and "rating_getAllByProductId C (request this) ident d1 = (Inr fetched, d2)"
  shows "findById C this ident s =
           (Inr (JObj (AList.update ''ratings'' fetched ps)),
            s\<lparr>db := d2,
              calls := calls s @ [Product_findById ident, Rating_getAllByProductId ident]\<rparr>) \<and>
         own_prop ''ratings'' (JObj (AList.update ''ratings'' fetched ps)) = Some fetched \<and>
         (\<forall>k. k \<noteq> ''ratings'' \<longrightarrow>
            own_prop k (JObj (AList.update ''ratings'' fetched ps)) = own_prop k (JObj ps))"
  using assms by (simp add: findById_eq update_conv')

lemma findById_product_not_an_object:
  assumes "product_findById C (request this) ident (db s) = (Inr JNull, d1)"
    and "rating_getAllByProductId C (request this) ident d1 = (Inr fetched, d2)"
  shows "fst (findById C this ident s) = Inl TypeError"
  using assms by (simp add: findById_eq)

text \<open>
  Claim C8. \<open>getAll\<close> settles exactly as the persistence \<open>getAll\<close> did: it resolves with
  the very sequence of products the entity produced, or rejects with the very error
  the entity failed with; its only call is that one.
\<close>

theorem getAll_passes_through:
  "getAll C this s =
     (fst (product_getAll C (request this) (db s)),
      s\<lparr>db := snd (product_getAll C (request this) (db s)),
        calls := calls s @ [Product_getAll]\<rparr>)"
  by (simp add: getAll_eq split: prod.splits)


subsection \<open>The validated value\<close>

lemma addRating_ignores_jvalue:
  "addRating
     (C\<lparr>Joi_validate := \<lambda>data sch options.
          (Joi_validate C data sch options)\<lparr>jvalue := normalized data sch options\<rparr>\<rparr>)
     this productId rating review s =
   addRating C this productId rating review s"
  by (simp add: addRating_def validateAddReviewRequest_def Let_def try_catch_def await_def
      resolve_def promise_reject_def publishToRealtimeQueue_def on_db_def on_queue_def)

text \<open>
  Claim C10. \<open>addRating\<close> discards the value the validation resolves with. In a
  successful run the persistence \<open>create\<close> is invoked with the caller's own
  \<open>productId\<close>, \<open>rating\<close> and \<open>review\<close> and the payload's \<^verbatim>\<open>product_id\<close> is the caller's
  \<open>productId\<close>; and replacing the validator's value by any other value changes nothing
  in what \<open>addRating\<close> does.
\<close>

theorem addRating_discards_validated_value:
  assumes valid: "\<not> truthy (jerror (Joi_validate C
             (JObj [(''product_id'', productId), (''rating'', rating), (''review'', review)])
             (addReviewRequestSchema C) \<lparr>abortEarly = False\<rparr>))"
    and create: "rating_create C (request this) productId rating review (db s) =
                   (Inr createdRatingId, d1)"
    and refetch: "rating_findById C (request this) createdRatingId d1 = (Inr hydrated, d2)"
    and created: "queue_create C (JStr ''product-rating:added'')
           (JObj [(''rating'', hydrated), (''product_id'', productId)]) (queue s) = (Inr job, q1)"
    and saved: "queue_save C job q1 = (Inr saved, q2)"
  shows "invoked s (snd (addRating C this productId rating review s)) =
           [Rating_create productId rating review,
            Rating_findById createdRatingId,
            Queue_create (JStr ''product-rating:added'')
              (JObj [(''rating'', hydrated), (''product_id'', productId)]),
            Queue_save] \<and>
         own_prop ''product_id'' (JObj [(''rating'', hydrated), (''product_id'', productId)]) =
           Some productId \<and>
         addRating
           (C\<lparr>Joi_validate := \<lambda>data sch options.
                (Joi_validate C data sch options)\<lparr>jvalue := other data sch options\<rparr>\<rparr>)
           this productId rating review s =
         addRating C this productId rating review s"
  using create refetch created saved
  by (simp add: addRating_published [OF valid] invoked_def addRating_ignores_jvalue)

subsection \<open>The validator modelled from the spec\<close>

lemma detail_in_schema_errors:
  "(k, r) \<in> set sch \<Longrightarrow> message \<in> set (rule_errors r (own_prop k data)) \<Longrightarrow>
   detail k message \<in> set (schema_errors sch data)"
  unfolding schema_errors_def by force

lemma missing_field_is_violation: "rule_errors r None \<noteq> []"
  by simp

lemma rating_out_of_range_is_violation:
  "x < lo \<or> hi < x \<Longrightarrow> rule_errors (Number_in_range_required lo hi) (Some (JNum x)) \<noteq> []"
  by auto

lemma Joi_model_collects_all:
  "schema_errors sch (JObj ps) \<noteq> [] \<Longrightarrow>
   jerror (Joi_validate_model (JObj ps) sch \<lparr>abortEarly = False\<rparr>) =
     ValidationError (schema_errors sch (JObj ps))"
  by (simp add: Joi_validate_model_def Let_def)

lemma Joi_model_aborts_early:
  "schema_errors sch (JObj ps) \<noteq> [] \<Longrightarrow>
   jerror (Joi_validate_model (JObj ps) sch \<lparr>abortEarly = True\<rparr>) =
     ValidationError [hd (schema_errors sch (JObj ps))]"
  by (cases "schema_errors sch (JObj ps)") (simp_all add: Joi_validate_model_def Let_def)


text \<open>
  Claim C4. For every input object that violates the review schema in some field (a
  missing \<^verbatim>\<open>product_id\<close>, \<^verbatim>\<open>rating\<close> or \<^verbatim>\<open>review\<close>, a rating out of range, ...),
  \<open>validateAddReviewRequest\<close> rejects with an error that has \<^verbatim>\<open>badRequest\<close> set to
  \<^verbatim>\<open>true\<close> and whose details list the violations of every field, not only the first.
  The schema and the validator are the ones modelled from the spec.
\<close>

theorem validateAddReviewRequest_collects_all:
  assumes field: "(k, r) \<in> set (review_schema lo hi)"
    and violated: "rule_errors r (own_prop k (JObj ps)) \<noteq> []"
  shows "validateAddReviewRequest (with_review_schema lo hi C) (JObj ps) s =
      (Inl (JObj [(''name'', JStr ''ValidationError''),
                  (''details'', JArr (schema_errors (review_schema lo hi) (JObj ps)) []),
                  (''badRequest'', JBool True)]), s) \<and>
    (\<forall>k' r' message.
       (k', r') \<in> set (review_schema lo hi) \<and>
       message \<in> set (rule_errors r' (own_prop k' (JObj ps))) \<longrightarrow>
       detail k' message \<in> set (schema_errors (review_schema lo hi) (JObj ps)))"
proof -
  from violated obtain message where "message \<in> set (rule_errors r (own_prop k (JObj ps)))"
    by (cases "rule_errors r (own_prop k (JObj ps))") auto
  with field have "detail k message \<in> set (schema_errors (review_schema lo hi) (JObj ps))"
    by (rule detail_in_schema_errors)
  then have "schema_errors (review_schema lo hi) (JObj ps) \<noteq> []"
    by (cases "schema_errors (review_schema lo hi) (JObj ps)") simp_all
  then have "jerror (Joi_validate (with_review_schema lo hi C) (JObj ps)
                (addReviewRequestSchema (with_review_schema lo hi C)) \<lparr>abortEarly = False\<rparr>) =
      JObj [(''name'', JStr ''ValidationError''),
            (''details'', JArr (schema_errors (review_schema lo hi) (JObj ps)) [])]"
    by (simp add: with_review_schema_def Joi_model_collects_all ValidationError_def)
  then have "validateAddReviewRequest (with_review_schema lo hi C) (JObj ps) s =
      (Inl (JObj (AList.update ''badRequest'' (JBool True)
         [(''name'', JStr ''ValidationError''),
          (''details'', JArr (schema_errors (review_schema lo hi) (JObj ps)) [])])), s)"
    by (rule validate_rejects_object)
  then have rejected: "validateAddReviewRequest (with_review_schema lo hi C) (JObj ps) s =
      (Inl (JObj [(''name'', JStr ''ValidationError''),
                  (''details'', JArr (schema_errors (review_schema lo hi) (JObj ps)) []),
                  (''badRequest'', JBool True)]), s)"
    by simp
  have every: "detail k' message \<in> set (schema_errors (review_schema lo hi) (JObj ps))"
    if "(k', r') \<in> set (review_schema lo hi) \<and>
       message \<in> set (rule_errors r' (own_prop k' (JObj ps)))"
    for k' r' message
    using that detail_in_schema_errors [of k' r' "review_schema lo hi" message "JObj ps"]
    by simp
  from rejected every show ?thesis
    by (intro conjI allI impI)
qed



section \<open>The methods on the in-memory double\<close>

lemmas run_defs =
  addRating_def findById_def getAll_def validateAddReviewRequest_def publishToRealtimeQueue_def
  try_catch_def await_def on_db_def on_queue_def resolve_def throw_def promise_reject_def
  invoked_def Let_def

lemmas double_defs =
  memory_def manager_def world0_def camera_def find_row_def new_row_def great_def added_def
  rejecting_def failing_create_def failing_save_def normalizing_def
  PersistenceError_def PublicationError_def NotFoundError_def

text \<open>Claim C1 on the in-memory double: the hypotheses hold there, and the conclusion is what the run computes.\<close>

theorem addRating_success_witness:
  "addRating (memory ()) manager (JNum 7) (JNum 5) (JStr ''Great product'') world0 =
     (Inr great,
      world0\<lparr>db := \<lparr>products = [camera],
                   ratings = [new_row (JNum 1) (JNum 7) (JNum 4) (JStr ''Good''), great]\<rparr>,
             queue := [(JStr ''product-rating:added'', added great (JNum 7))],
             calls := [Rating_create (JNum 7) (JNum 5) (JStr ''Great product''),
                       Rating_findById (JNum 2),
                       Queue_create (JStr ''product-rating:added'') (added great (JNum 7)),
                       Queue_save]\<rparr>)"
  using addRating_success [where C = "memory ()" and this = manager and productId = "JNum 7"
      and rating = "JNum 5" and review = "JStr ''Great product''" and s = world0
      and createdRatingId = "JNum 2"
      and ?d1.0 = "\<lparr>products = [camera],
                    ratings = [new_row (JNum 1) (JNum 7) (JNum 4) (JStr ''Good''), great]\<rparr>"
      and hydrated = great
      and ?d2.0 = "\<lparr>products = [camera],
                    ratings = [new_row (JNum 1) (JNum 7) (JNum 4) (JStr ''Good''), great]\<rparr>"
      and job = "(JStr ''product-rating:added'', added great (JNum 7))"
      and ?q1.0 = "[]" and saved = JUndefined
      and ?q2.0 = "[(JStr ''product-rating:added'', added great (JNum 7))]"]
  by (simp add: double_defs)


text \<open>Claim C2 on the in-memory double: the hypotheses hold there, and the conclusion is what the run computes.\<close>

theorem addRating_queue_after_create_and_refetch_witness:
  "(\<exists>c \<in> set (invoked world0
        (snd (addRating (memory ()) manager (JNum 7) (JNum 5) (JStr ''Great product'') world0))).
      is_queue_call c) \<and>
   (\<exists>createdRatingId d1 createdRating d2 rest.
      rating_create (memory ()) (request manager) (JNum 7) (JNum 5) (JStr ''Great product'')
        (db world0) = (Inr createdRatingId, d1) \<and>
      rating_findById (memory ()) (request manager) createdRatingId d1 = (Inr createdRating, d2) \<and>
      invoked world0
        (snd (addRating (memory ()) manager (JNum 7) (JNum 5) (JStr ''Great product'') world0)) =
        Rating_create (JNum 7) (JNum 5) (JStr ''Great product'') #
          Rating_findById createdRatingId # rest) \<and>
   rating_create failing_create (request manager) (JNum 7) (JNum 5) (JStr ''Great product'')
     (db world0) = (Inl PersistenceError, db world0) \<and>
   filter is_queue_call (invoked world0
     (snd (addRating failing_create manager (JNum 7) (JNum 5) (JStr ''Great product'') world0))) = []"
proof -
  have queued: "\<exists>c \<in> set (invoked world0
        (snd (addRating (memory ()) manager (JNum 7) (JNum 5) (JStr ''Great product'') world0))).
      is_queue_call c"
    by (simp add: run_defs double_defs)
  have fails: "rating_create failing_create (request manager) (JNum 7) (JNum 5)
      (JStr ''Great product'') (db world0) = (Inl PersistenceError, db world0)"
    by (simp add: double_defs)
  note ok = addRating_queue_after_create_and_refetch
    [OF surjective_pairing, of "memory ()" manager "JNum 7" "JNum 5" "JStr ''Great product''" world0]
  note ko = addRating_queue_after_create_and_refetch
    [OF surjective_pairing, of failing_create manager "JNum 7" "JNum 5"
       "JStr ''Great product''" world0]
  note after = ok [THEN conjunct2, THEN conjunct1, rule_format, OF queued]
  from ko [THEN conjunct2, THEN conjunct2, rule_format, OF fails]
  have "\<forall>c \<in> set (invoked world0
     (snd (addRating failing_create manager (JNum 7) (JNum 5) (JStr ''Great product'') world0))).
       \<not> is_queue_call c"
    by (intro ballI)
  then have none: "filter is_queue_call (invoked world0
     (snd (addRating failing_create manager (JNum 7) (JNum 5) (JStr ''Great product'') world0))) = []"
    by (simp only: filter_empty_conv)
  from queued after fails none show ?thesis
    by (intro conjI)
qed

text \<open>Claim C3 on the in-memory double: the hypotheses hold there, and the conclusion is what the run computes.\<close>

theorem addRating_validation_fails_witness:
  "truthy (jerror (Joi_validate rejecting
     (JObj [(''product_id'', JNum 7), (''rating'', JNum 9), (''review'', JStr [])])
     (addReviewRequestSchema rejecting) \<lparr>abortEarly = False\<rparr>)) \<and>
   addRating rejecting manager (JNum 7) (JNum 9) (JStr []) world0 =
     (Inl (JObj [(''name'', JStr ''ValidationError''), (''badRequest'', JBool True)]), world0) \<and>
   invoked world0 (snd (addRating rejecting manager (JNum 7) (JNum 9) (JStr []) world0)) = []"
proof -
  have fails: "truthy (jerror (Joi_validate rejecting
     (JObj [(''product_id'', JNum 7), (''rating'', JNum 9), (''review'', JStr [])])
     (addReviewRequestSchema rejecting) \<lparr>abortEarly = False\<rparr>))"
    by (simp add: double_defs)
  have object: "jerror (Joi_validate rejecting
     (JObj [(''product_id'', JNum 7), (''rating'', JNum 9), (''review'', JStr [])])
     (addReviewRequestSchema rejecting) \<lparr>abortEarly = False\<rparr>) =
       JObj [(''name'', JStr ''ValidationError'')]"
    by (simp add: double_defs)
  note inst = addRating_validation_fails [OF fails, of manager world0]
  from inst [THEN conjunct2, THEN conjunct2, rule_format, OF object]
  have "addRating rejecting manager (JNum 7) (JNum 9) (JStr []) world0 =
     (Inl (JObj (AList.update ''badRequest'' (JBool True) [(''name'', JStr ''ValidationError'')])),
      world0)" .
  then have tagged: "addRating rejecting manager (JNum 7) (JNum 9) (JStr []) world0 =
     (Inl (JObj [(''name'', JStr ''ValidationError''), (''badRequest'', JBool True)]), world0)"
    by simp
  from inst [THEN conjunct2, THEN conjunct1]
  have "invoked world0
      (snd (addRating rejecting manager (JNum 7) (JNum 9) (JStr []) world0)) = []" .
  with fails tagged show ?thesis
    by (intro conjI)
qed

text \<open>Claim C5 on the in-memory double: the hypotheses hold there, and the conclusion is what the run computes.\<close>

theorem addRating_publication_fails_witness:
  "fst (addRating failing_save manager (JNum 7) (JNum 5) (JStr ''Great product'') world0) =
     Inl PublicationError \<and>
   db (snd (addRating failing_save manager (JNum 7) (JNum 5) (JStr ''Great product'') world0)) =
     \<lparr>products = [camera],
      ratings = [new_row (JNum 1) (JNum 7) (JNum 4) (JStr ''Good''), great]\<rparr> \<and>
   invoked world0
     (snd (addRating failing_save manager (JNum 7) (JNum 5) (JStr ''Great product'') world0)) =
     [Rating_create (JNum 7) (JNum 5) (JStr ''Great product''), Rating_findById (JNum 2),
      Queue_create (JStr ''product-rating:added'') (added great (JNum 7)), Queue_save]"
proof -
  let ?d = "\<lparr>products = [camera],
             ratings = [new_row (JNum 1) (JNum 7) (JNum 4) (JStr ''Good''), great]\<rparr>"
  have valid: "\<not> truthy (jerror (Joi_validate failing_save
      (JObj [(''product_id'', JNum 7), (''rating'', JNum 5), (''review'', JStr ''Great product'')])
      (addReviewRequestSchema failing_save) \<lparr>abortEarly = False\<rparr>))"
    by (simp add: double_defs)
  have create: "rating_create failing_save (request manager) (JNum 7) (JNum 5)
      (JStr ''Great product'') (db world0) = (Inr (JNum 2), ?d)"
    by (simp add: double_defs)
  have refetch: "rating_findById failing_save (request manager) (JNum 2) ?d = (Inr great, ?d)"
    by (simp add: double_defs)
  have created: "queue_create failing_save (JStr ''product-rating:added'')
      (JObj [(''rating'', great), (''product_id'', JNum 7)]) (queue world0) =
      (Inr (JStr ''product-rating:added'', added great (JNum 7)), [])"
    by (simp add: double_defs)
  have save: "queue_save failing_save (JStr ''product-rating:added'', added great (JNum 7)) [] =
      (Inl PublicationError, [])"
    by (simp add: double_defs)
  from created save
  have publish: "queue_create failing_save (JStr ''product-rating:added'')
        (JObj [(''rating'', great), (''product_id'', JNum 7)]) (queue world0) =
        (Inl PublicationError, []) \<or>
      (\<exists>job q0. queue_create failing_save (JStr ''product-rating:added'')
        (JObj [(''rating'', great), (''product_id'', JNum 7)]) (queue world0) = (Inr job, q0) \<and>
        queue_save failing_save job q0 = (Inl PublicationError, []))"
    by (intro disjI2 exI conjI)
  note inst = addRating_publication_fails [OF valid create refetch publish]
  have run: "invoked world0
     (snd (addRating failing_save manager (JNum 7) (JNum 5) (JStr ''Great product'') world0)) =
     [Rating_create (JNum 7) (JNum 5) (JStr ''Great product''), Rating_findById (JNum 2),
      Queue_create (JStr ''product-rating:added'') (added great (JNum 7)), Queue_save]"
    by (simp add: run_defs double_defs)
  from inst [THEN conjunct1] inst [THEN conjunct2, THEN conjunct1] run show ?thesis
    by (intro conjI)
qed

text \<open>Claim C6 on the in-memory double: the hypotheses hold there, and the conclusion is what the run computes.\<close>

theorem findById_product_lookup_fails_witness:
  "product_findById (memory ()) (request manager) (JNum 42) (db world0) =
     (Inl NotFoundError, db world0) \<and>
   findById (memory ()) manager (JNum 42) world0 =
     (Inl NotFoundError, world0\<lparr>calls := [Product_findById (JNum 42)]\<rparr>)"
  using findById_product_lookup_fails [where C = "memory ()" and this = manager
      and ident = "JNum 42" and s = world0 and e = NotFoundError and ?d1.0 = "db world0"]
  by (simp add: double_defs)

text \<open>Claim C7 on the in-memory double: the hypotheses hold there, and the conclusion is what the run computes.\<close>

theorem findById_attaches_ratings_witness:
  "findById (memory ()) manager (JNum 7) world0 =
     (Inr (JObj [(''id'', JNum 7), (''name'', JStr ''Camera''), (''price'', JNum 250),
                 (''ratings'', JArr [new_row (JNum 1) (JNum 7) (JNum 4) (JStr ''Good'')] [])]),
      world0\<lparr>calls := [Product_findById (JNum 7), Rating_getAllByProductId (JNum 7)]\<rparr>)"
  using findById_attaches_ratings [where C = "memory ()" and this = manager
      and ident = "JNum 7" and s = world0
      and ps = "[(''id'', JNum 7), (''name'', JStr ''Camera''), (''price'', JNum 250)]"
      and ?d1.0 = "db world0"
      and fetched = "JArr [new_row (JNum 1) (JNum 7) (JNum 4) (JStr ''Good'')] []"
      and ?d2.0 = "db world0"]
  by (simp add: double_defs)


text \<open>Claim C10 on the in-memory double: the hypotheses hold there, and the conclusion is what the run computes.\<close>

theorem addRating_discards_validated_value_witness:
  "jvalue (Joi_validate normalizing
      (JObj [(''product_id'', JStr ''7''), (''rating'', JStr ''5''),
             (''review'', JStr ''Great product'')])
      (addReviewRequestSchema normalizing) \<lparr>abortEarly = False\<rparr>) =
     JObj [(''product_id'', JNum 7), (''rating'', JNum 5), (''review'', JStr ''Great product'')] \<and>
   invoked world0
     (snd (addRating normalizing manager (JStr ''7'') (JStr ''5'') (JStr ''Great product'')
             world0)) =
     [Rating_create (JStr ''7'') (JStr ''5'') (JStr ''Great product''),
      Rating_findById (JNum 2),
      Queue_create (JStr ''product-rating:added'')
        (JObj [(''rating'',
                new_row (JNum 2) (JStr ''7'') (JStr ''5'') (JStr ''Great product'')),
               (''product_id'', JStr ''7'')]),
      Queue_save]"
proof -
  let ?row = "new_row (JNum 2) (JStr ''7'') (JStr ''5'') (JStr ''Great product'')"
  let ?d = "\<lparr>products = [camera],
             ratings = [new_row (JNum 1) (JNum 7) (JNum 4) (JStr ''Good''), ?row]\<rparr>"
  let ?job = "(JStr ''product-rating:added'', JObj [(''rating'', ?row), (''product_id'', JStr ''7'')])"
  have valid: "\<not> truthy (jerror (Joi_validate normalizing
      (JObj [(''product_id'', JStr ''7''), (''rating'', JStr ''5''),
             (''review'', JStr ''Great product'')])
      (addReviewRequestSchema normalizing) \<lparr>abortEarly = False\<rparr>))"
    by (simp add: double_defs)
  have normalized: "jvalue (Joi_validate normalizing
      (JObj [(''product_id'', JStr ''7''), (''rating'', JStr ''5''),
             (''review'', JStr ''Great product'')])
      (addReviewRequestSchema normalizing) \<lparr>abortEarly = False\<rparr>) =
     JObj [(''product_id'', JNum 7), (''rating'', JNum 5), (''review'', JStr ''Great product'')]"
    by (simp add: double_defs)
  have create: "rating_create normalizing (request manager) (JStr ''7'') (JStr ''5'')
      (JStr ''Great product'') (db world0) = (Inr (JNum 2), ?d)"
    by (simp add: double_defs)
  have refetch: "rating_findById normalizing (request manager) (JNum 2) ?d = (Inr ?row, ?d)"
    by (simp add: double_defs)
  have created: "queue_create normalizing (JStr ''product-rating:added'')
      (JObj [(''rating'', ?row), (''product_id'', JStr ''7'')]) (queue world0) = (Inr ?job, [])"
    by (simp add: double_defs)
  have saved: "queue_save normalizing ?job [] = (Inr JUndefined, [?job])"
    by (simp add: double_defs)
  note inst = addRating_discards_validated_value
    [OF valid create refetch created saved]
  from normalized inst [THEN conjunct1] show ?thesis
    by (intro conjI)
qed

text \<open>Claim C4 on the in-memory double: the hypotheses hold there, and the conclusion is what the run computes.\<close>

theorem validateAddReviewRequest_collects_all_witness:
  "(''rating'', Number_in_range_required 1 5) \<in> set (review_schema 1 5) \<and>
   rule_errors (Number_in_range_required 1 5)
     (own_prop ''rating'' (JObj [(''rating'', JNum 9)])) \<noteq> [] \<and>
   validateAddReviewRequest (with_review_schema 1 5 (memory [])) (JObj [(''rating'', JNum 9)]) world0 =
     (Inl (JObj [(''name'', JStr ''ValidationError''),
        (''details'',
           JArr [detail ''product_id'' ''is required'',
                 detail ''rating'' ''must be less than or equal to the maximum'',
                 detail ''review'' ''is required''] []),
        (''badRequest'', JBool True)]), world0)"
proof -
  have field: "(''rating'', Number_in_range_required 1 5) \<in> set (review_schema 1 5)"
    by (simp add: review_schema_def)
  have violated: "rule_errors (Number_in_range_required 1 5)
     (own_prop ''rating'' (JObj [(''rating'', JNum 9)])) \<noteq> []"
    by simp
  have all: "schema_errors (review_schema 1 5) (JObj [(''rating'', JNum 9)]) =
      [detail ''product_id'' ''is required'',
       detail ''rating'' ''must be less than or equal to the maximum'',
       detail ''review'' ''is required'']"
    by (simp add: schema_errors_def review_schema_def)
  note inst = validateAddReviewRequest_collects_all
    [OF field violated, of "memory []" world0, THEN conjunct1, unfolded all]
  from field violated inst show ?thesis
    by (intro conjI)
qed


end
